theory Spec2Isabelle
  imports Complex_Main "HOL-Library.AList"
begin

chapter \<open>CityScene.jsx: role-scoped visibility, analytics and the local store\<close>

text \<open>
  A shallow embedding of the data-management slice of \<^verbatim>\<open>src/CityScene.jsx\<close>:
  the visibility decisions of the React components (each a pure function of the
  component's props and state), the analytics log, the migration that runs on mount and
  the \<^verbatim>\<open>loadData\<close>/\<^verbatim>\<open>saveData\<close> pair over the browser's
  local storage.

  Conventions. A JavaScript object is an association list of its own properties in
  enumeration order, which is the order of creation for the property names of the source
  (none of them is an array index); a property that may be absent is an \<open>option\<close>,
  with \<open>None\<close> for \<^verbatim>\<open>undefined\<close>/\<^verbatim>\<open>null\<close>. Truthiness is written out where the source
  relies on it. Record fields carry a short prefix where two objects of the source have a
  property of the same name.
\<close>

section \<open>Constants\<close>

text \<open>\<^verbatim>\<open>const ROLES = { ADMIN: 'ADMIN', ..., VISITOR: 'VISITOR', ... }\<close> (line 108).\<close>

definition ROLES_ADMIN :: string where "ROLES_ADMIN = ''ADMIN''"
definition ROLES_EDITOR :: string where "ROLES_EDITOR = ''EDITOR''"
definition ROLES_VIEWER :: string where "ROLES_VIEWER = ''VIEWER''"
definition ROLES_VISITOR :: string where "ROLES_VISITOR = ''VISITOR''"
definition ROLES_ORG_ADMIN :: string where "ROLES_ORG_ADMIN = ''ORG_ADMIN''"
definition ROLES_MARKETER :: string where "ROLES_MARKETER = ''MARKETER''"

definition ROLES :: "string list" where
  "ROLES = [ROLES_ADMIN, ROLES_EDITOR, ROLES_VIEWER, ROLES_VISITOR, ROLES_ORG_ADMIN, ROLES_MARKETER]"

text \<open>\<^verbatim>\<open>const ACCOUNT_TYPES = { GUEST: 'guest', INDIVIDUAL: 'individual',
  ORGANIZATION: 'organization' }\<close> (line 109).\<close>

definition ACCOUNT_TYPES_GUEST :: string where "ACCOUNT_TYPES_GUEST = ''guest''"
definition ACCOUNT_TYPES_INDIVIDUAL :: string where "ACCOUNT_TYPES_INDIVIDUAL = ''individual''"
definition ACCOUNT_TYPES_ORGANIZATION :: string where "ACCOUNT_TYPES_ORGANIZATION = ''organization''"

text \<open>A flag object: property name to boolean, in enumeration order.\<close>

type_synonym flags = "(string \<times> bool) list"

text \<open>\<^verbatim>\<open>DEFAULT_MASTER_FLAGS\<close> (lines 122-153), entry by entry.\<close>

definition DEFAULT_MASTER_FLAGS :: flags where
  "DEFAULT_MASTER_FLAGS =
    [(''maintenanceMode'', False),
     (''allowSignups'', True),
     (''showChat'', True),
     (''showLabels'', True),
     (''adminSidebar'', True),
     (''showCustomerProgressDrawer'', True),
     (''enableAuditLog'', True),
     (''enableDashboardKPI'', True),
     (''enableBrandMode'', True),
     (''enableFlightPlan'', True),
     (''enableCreativeChecker'', True),
     (''enableLeadsPanel'', True),
     (''enableCommandPalette'', True),
     (''enableGuidedTour'', True),
     (''enableSeasonPass'', True),
     (''enableEventDome'', True),
     (''enableHoloStage'', True),
     (''enableAutoExpoDome'', True),
     (''enableBrandCommandCenter'', True),
     (''enableLiveBroadcastUI'', True),
     (''enableCrowdFX'', True),
     (''enablePortals'', True),
     (''enableDomeScheduler'', True),
     (''enableOneClickExports'', True),
     (''missionsForGuest'', True),
     (''enableAssetIdsOverlay'', True),
     (''enableMasterControlPalette'', True),
     (''enableBrandModeGate'', True),
     (''enablePriceTagGate'', True)]"

text \<open>
  \<^verbatim>\<open>masterFlags.name\<close> in a condition: the property read for its truthiness. An
  absent property reads \<^verbatim>\<open>undefined\<close>, which is falsy.
\<close>

definition flagOn :: "flags \<Rightarrow> string \<Rightarrow> bool" where
  "flagOn fl k = (map_of fl k = Some True)"

text \<open>
  \<^verbatim>\<open>onToggle={(k)=>setMasterFlags(p=>({...p, [k]: !p[k]}))}\<close> (line 3017): the
  Master Control switch. The property keeps its place when present and is appended
  otherwise.
\<close>

definition onToggle :: "string \<Rightarrow> flags \<Rightarrow> flags" where
  "onToggle k p = AList.update k (\<not> flagOn p k) p"

section \<open>Users, placements and events\<close>

text \<open>\<^verbatim>\<open>orgContext = { orgId, orgName, orgIndustry, role }\<close> (line 331).\<close>

record orgContext =
  orgId :: "string option"
  orgName :: "string option"
  orgIndustry :: "string option"
  orgRole :: "string option"

text \<open>
  A stored user (lines 329-335). Only the properties the modelled code reads are named;
  the record's extension part stands for every other property, so
  \<^verbatim>\<open>{ ...u, role: r }\<close> is the record update of \<open>role\<close>.
\<close>

record user =
  email :: string
  name :: string
  role :: "string option"
  accountType :: "string option"
  orgContext :: "orgContext option"

text \<open>A placement's \<^verbatim>\<open>brand\<close> sub-record (lines 1656-1663) and the placement.\<close>

record brand =
  brandOrgId :: "string option"
  brandOrgName :: "string option"
  brandEmail :: "string option"
  priceTag :: "string option"

record sceneItem =
  sponsorName :: "string option"
  campaignId :: "string option"
  ctaUrl :: "string option"
  brand :: "brand option"

type_synonym sceneData = "string \<Rightarrow> sceneItem option"


section \<open>Access control\<close>

text \<open>\<^verbatim>\<open>currentUser?.orgContext?.orgId\<close>: \<^verbatim>\<open>undefined\<close> as soon as one link is
  missing.\<close>

definition viewerOrgId :: "'a user_scheme option \<Rightarrow> string option" where
  "viewerOrgId currentUser =
     (case currentUser of
        None \<Rightarrow> None
      | Some u \<Rightarrow> (case orgContext u of None \<Rightarrow> None | Some c \<Rightarrow> orgId c))"

text \<open>
  \<^verbatim>\<open>const selectedItem = selectedId ? sceneData[selectedId] : null;\<close> (line 1923).
  The empty string is the only falsy id.
\<close>

definition selectedItem :: "string option \<Rightarrow> sceneData \<Rightarrow> sceneItem option" where
  "selectedItem selectedId sd =
     (case selectedId of None \<Rightarrow> None | Some i \<Rightarrow> if i = [] then None else sd i)"

text \<open>
  \<^verbatim>\<open>const canSeeMetrics = isAdmin || (selectedItem && selectedItem.brand &&
  selectedItem.brand.orgId === currentUser?.orgContext?.orgId);\<close> (line 1929), read for
  its truthiness. The strict equality compares two optional strings:
  \<^verbatim>\<open>undefined === undefined\<close> is true.
\<close>

definition canSeeMetrics :: "bool \<Rightarrow> sceneItem option \<Rightarrow> 'a user_scheme option \<Rightarrow> bool" where
  "canSeeMetrics isAdmin item currentUser =
     (isAdmin \<or>
      (case item of
         None \<Rightarrow> False
       | Some it \<Rightarrow>
           (case brand it of
              None \<Rightarrow> False
            | Some b \<Rightarrow> brandOrgId b = viewerOrgId currentUser)))"

text \<open>
  \<^verbatim>\<open>const canSeeBrandMode = isAdmin || (currentUser?.accountType ===
  ACCOUNT_TYPES.ORGANIZATION);\<close> (line 1676, in \<^verbatim>\<open>LandingOverlay\<close>).
\<close>

definition canSeeBrandMode :: "bool \<Rightarrow> 'a user_scheme option \<Rightarrow> bool" where
  "canSeeBrandMode isAdmin currentUser =
     (isAdmin \<or>
      (case currentUser of
         None \<Rightarrow> False
       | Some u \<Rightarrow> accountType u = Some ACCOUNT_TYPES_ORGANIZATION))"

section \<open>The state of SceneContent and what it renders\<close>

datatype viewState = LANDING | TRANSITION | WORLD

text \<open>The \<^verbatim>\<open>useState\<close> cells of \<^verbatim>\<open>SceneContent\<close> (lines 2477-2525) that the
  modelled conditions read.\<close>

record scene =
  viewState :: viewState
  isAdmin :: bool
  currentUser :: "user option"
  masterFlags :: flags
  brandModeEnabled :: bool
  showBrandPanel :: bool
  showMissions :: bool
  showVault :: bool
  showProgressDrawer :: bool
  selectedId :: "string option"
  sceneData :: sceneData

text \<open>
  The "For Brands" toggle of the landing page (line 1697):
  \<^verbatim>\<open>{brandModeEnabled && canSeeBrandMode && (<button ...>)}\<close>, where the caller
  passes \<^verbatim>\<open>brandModeEnabled={masterFlags.enableBrandMode}\<close> (line 2933).
\<close>

definition landingBrandToggle :: "scene \<Rightarrow> bool" where
  "landingBrandToggle s =
     (flagOn (masterFlags s) ''enableBrandMode'' \<and> canSeeBrandMode (isAdmin s) (currentUser s))"

text \<open>
  A click on that toggle is \<^verbatim>\<open>setBrandMode(p=>!p)\<close> (line 1698), and the effect on
  \<^verbatim>\<open>brandModeEnabled\<close> (lines 2562-2565) opens or closes the panel with it.
\<close>

definition clickLandingBrandToggle :: "scene \<Rightarrow> scene" where
  "clickLandingBrandToggle s =
     s\<lparr>brandModeEnabled := \<not> brandModeEnabled s, showBrandPanel := \<not> brandModeEnabled s\<rparr>"

text \<open>The toolbar of the world view, lines 2951-2962: rendered when
  \<^verbatim>\<open>viewState === "WORLD" || viewState === "TRANSITION"\<close>.\<close>

definition worldToolbar :: "scene \<Rightarrow> bool" where
  "worldToolbar s = (viewState s = WORLD \<or> viewState s = TRANSITION)"

text \<open>\<^verbatim>\<open>{masterFlags.enableBrandMode && (<button onClick={()=>setShowBrandPanel(p=>!p)}>
  Brand Mode</button>)}\<close> (lines 2960-2962).\<close>

definition worldBrandModeButton :: "scene \<Rightarrow> bool" where
  "worldBrandModeButton s = (worldToolbar s \<and> flagOn (masterFlags s) ''enableBrandMode'')"

definition clickWorldBrandModeButton :: "scene \<Rightarrow> scene" where
  "clickWorldBrandModeButton s = s\<lparr>showBrandPanel := \<not> showBrandPanel s\<rparr>"

text \<open>\<^verbatim>\<open>{masterFlags.enableBrandMode && showBrandPanel && (<BrandPreviewPanel .../>)}\<close>
  (line 2812).\<close>

definition brandPanelRendered :: "scene \<Rightarrow> bool" where
  "brandPanelRendered s = (flagOn (masterFlags s) ''enableBrandMode'' \<and> showBrandPanel s)"

text \<open>
  The Missions and Vault buttons (lines 2955-2956) are children of the toolbar with no
  condition of their own; each opens its modal (lines 3018-3019).
\<close>

definition missionsButton :: "scene \<Rightarrow> bool" where
  "missionsButton s = worldToolbar s"

definition vaultButton :: "scene \<Rightarrow> bool" where
  "vaultButton s = worldToolbar s"

definition clickMissionsButton :: "scene \<Rightarrow> scene" where
  "clickMissionsButton s = s\<lparr>showMissions := True\<rparr>"

definition clickVaultButton :: "scene \<Rightarrow> scene" where
  "clickVaultButton s = s\<lparr>showVault := True\<rparr>"

definition missionsModalRendered :: "scene \<Rightarrow> bool" where
  "missionsModalRendered s = showMissions s"

definition vaultModalRendered :: "scene \<Rightarrow> bool" where
  "vaultModalRendered s = showVault s"

text \<open>
  The progress drawer (line 2807) and its opener in the HUD (line 2977), both under
  \<^verbatim>\<open>!isAdmin && masterFlags.showCustomerProgressDrawer\<close>; the opener also needs the
  world view.
\<close>

definition progressDrawerRendered :: "scene \<Rightarrow> bool" where
  "progressDrawerRendered s =
     (\<not> isAdmin s \<and> flagOn (masterFlags s) ''showCustomerProgressDrawer'')"

definition progressDrawerOpener :: "scene \<Rightarrow> bool" where
  "progressDrawerOpener s =
     (worldToolbar s \<and> \<not> isAdmin s \<and> flagOn (masterFlags s) ''showCustomerProgressDrawer'')"

text \<open>The Master Control switch acting on the state cell.\<close>

definition toggleMasterFlag :: "string \<Rightarrow> scene \<Rightarrow> scene" where
  "toggleMasterFlag k s = s\<lparr>masterFlags := onToggle k (masterFlags s)\<rparr>"

text \<open>
  What \<^verbatim>\<open>SceneContent\<close> hands to the brand panel (lines 2814-2827): \<^verbatim>\<open>selectedId\<close>,
  \<^verbatim>\<open>sceneData\<close> and \<^verbatim>\<open>isAdmin\<close>, and no \<^verbatim>\<open>currentUser\<close> attribute, so
  inside the panel \<^verbatim>\<open>currentUser\<close> is \<^verbatim>\<open>undefined\<close>.
\<close>

definition panelCanSeeMetrics :: "scene \<Rightarrow> bool" where
  "panelCanSeeMetrics s =
     canSeeMetrics (isAdmin s) (selectedItem (selectedId s) (sceneData s)) (None :: user option)"

section \<open>The analytics log\<close>

text \<open>
  An event is \<^verbatim>\<open>{ type, timestamp, ...payload }\<close> (line 186). The payloads of the
  source carry \<^verbatim>\<open>id\<close> (the placement), \<^verbatim>\<open>sponsorName\<close>, \<^verbatim>\<open>campaignId\<close>,
  \<^verbatim>\<open>seconds\<close>, \<^verbatim>\<open>sessionId\<close> and \<^verbatim>\<open>missionId\<close>; the event is the payload
  extended by the two leading properties.
\<close>

record payload =
  pId :: "string option"
  pSponsorName :: "string option"
  pCampaignId :: "string option"
  seconds :: "rat option"
  sessionId :: "string option"
  missionId :: "string option"

record event = payload +
  etype :: string
  timestamp :: string

definition mkEntry :: "string \<Rightarrow> string \<Rightarrow> payload \<Rightarrow> event" where
  "mkEntry ty now p =
     \<lparr>pId = pId p, pSponsorName = pSponsorName p, pCampaignId = pCampaignId p,
      seconds = seconds p, sessionId = sessionId p, missionId = missionId p,
      etype = ty, timestamp = now\<rparr>"





section \<open>Numbers and their formatting\<close>

text \<open>
  A JavaScript number that results from dividing one count by another. Finite values
  are exact rationals here, not IEEE doubles: the model rounds the exact quotient where
  the engine rounds its nearest double. Division by zero does not raise in JavaScript; it
  yields \<^verbatim>\<open>NaN\<close> or \<^verbatim>\<open>Infinity\<close>, and both are values of the model.
\<close>

datatype jsnum = Num rat | NaN | Infinity

definition jsDiv :: "nat \<Rightarrow> nat \<Rightarrow> jsnum" where
  "jsDiv a b =
     (if b = 0 then (if a = 0 then NaN else Infinity) else Num (of_nat a / of_nat b))"

definition jsTimes :: "jsnum \<Rightarrow> nat \<Rightarrow> jsnum" where
  "jsTimes x k =
     (case x of
        Num q \<Rightarrow> Num (q * of_nat k)
      | NaN \<Rightarrow> NaN
      | Infinity \<Rightarrow> (if k = 0 then NaN else Infinity))"

definition digitChar :: "nat \<Rightarrow> char" where
  "digitChar d = ''0123456789'' ! d"

function showNat :: "nat \<Rightarrow> string" where
  "showNat n = (if n < 10 then [digitChar n] else showNat (n div 10) @ [digitChar (n mod 10)])"
  by pat_completeness auto
termination
  by (relation "measure id") auto

declare showNat.simps [simp del]

definition padZeros :: "nat \<Rightarrow> string \<Rightarrow> string" where
  "padZeros w s = replicate (w - length s) (CHR ''0'') @ s"

text \<open>
  \<^verbatim>\<open>Number.prototype.toFixed(d)\<close> on a non-negative finite value: the integer \<open>n\<close>
  with \<open>n / 10^d\<close> nearest to the value, the larger one on a tie, written with \<open>d\<close>
  digits after the point (no point when \<open>d = 0\<close>). A negative value is the
  formatted magnitude after a minus sign.
\<close>

definition fixedDigits :: "nat \<Rightarrow> rat \<Rightarrow> string" where
  "fixedDigits d q =
     (let n = nat \<lfloor>q * 10 ^ d + 1 / 2\<rfloor>
      in if d = 0 then showNat n
         else showNat (n div 10 ^ d) @ ''.'' @ padZeros d (showNat (n mod 10 ^ d)))"

definition toFixed :: "nat \<Rightarrow> jsnum \<Rightarrow> string" where
  "toFixed d x =
     (case x of
        Num q \<Rightarrow> (if q < 0 then ''-'' @ fixedDigits d (- q) else fixedDigits d q)
      | NaN \<Rightarrow> ''NaN''
      | Infinity \<Rightarrow> ''Infinity'')"

section \<open>Metrics\<close>

text \<open>\<^verbatim>\<open>analytics.filter(a => a.type === ty).length\<close>.\<close>

definition countType :: "string \<Rightarrow> event list \<Rightarrow> nat" where
  "countType ty analytics = length (filter (\<lambda>a. etype a = ty) analytics)"

text \<open>\<^verbatim>\<open>n || d\<close> on a count: zero is falsy.\<close>

definition orCount :: "nat \<Rightarrow> nat \<Rightarrow> nat" where
  "orCount n d = (if n = 0 then d else n)"

text \<open>
  \<^verbatim>\<open>metrics\<close> of \<^verbatim>\<open>BrandPreviewPanel\<close> (lines 1932-1938):
  \<^verbatim>\<open>
  if (!canSeeMetrics) return null; // Redacted view
  const impressions = analytics.filter(a => a.type === 'billboard_impression').length || 1250;
  const clicks = analytics.filter(a => a.type === 'billboard_click').length || 85;
  const ctr = ((clicks / impressions) * 100).toFixed(2);
  return { impressions, clicks, ctr, dwell: '4.2s' };
  \<close>
  where \<^verbatim>\<open>analytics = loadData(KEYS.ANALYTICS, [])\<close>.
\<close>

record metricsView =
  impressions :: nat
  clicks :: nat
  ctr :: string
  dwell :: string

definition metrics :: "bool \<Rightarrow> event list \<Rightarrow> metricsView option" where
  "metrics canSee analytics =
     (if \<not> canSee then None
      else
        let imp = orCount (countType ''billboard_impression'' analytics) 1250;
            clk = orCount (countType ''billboard_click'' analytics) 85
        in Some \<lparr>impressions = imp, clicks = clk,
                 ctr = toFixed 2 (jsTimes (jsDiv clk imp) 100), dwell = ''4.2s''\<rparr>)"

text \<open>
  The metrics block of the panel (lines 1948-1961): the four tiles when
  \<^verbatim>\<open>canSeeMetrics\<close>, the "CONFIDENTIAL DATA" box otherwise.
\<close>

datatype metricsBlock = Tiles metricsView | Confidential

definition BrandPreviewPanel ::
  "bool \<Rightarrow> string option \<Rightarrow> sceneData \<Rightarrow> 'a user_scheme option \<Rightarrow> event list \<Rightarrow> metricsBlock" where
  "BrandPreviewPanel admin sel sd viewer analytics =
     (case metrics (canSeeMetrics admin (selectedItem sel sd) viewer) analytics of
        None \<Rightarrow> Confidential
      | Some m \<Rightarrow> Tiles m)"

text \<open>
  The panel as \<^verbatim>\<open>SceneContent\<close> renders it (lines 2812-2827): under
  \<^verbatim>\<open>masterFlags.enableBrandMode && showBrandPanel\<close>, with \<^verbatim>\<open>selectedId\<close>,
  \<^verbatim>\<open>sceneData\<close> and \<^verbatim>\<open>isAdmin\<close> passed on and \<^verbatim>\<open>currentUser\<close> left
  undefined. \<open>None\<close> is no panel.
\<close>

definition renderedBrandPanel :: "scene \<Rightarrow> event list \<Rightarrow> metricsBlock option" where
  "renderedBrandPanel s analytics =
     (if brandPanelRendered s
      then Some (BrandPreviewPanel (isAdmin s) (selectedId s) (sceneData s)
                   (None :: user option) analytics)
      else None)"



text \<open>
  \<^verbatim>\<open>metricsByCampaign\<close> of \<^verbatim>\<open>UnifiedControlPanel\<close> (lines 1485-1496): one bucket
  per \<^verbatim>\<open>e.campaignId || 'N/A'\<close>, created on the first event of the campaign, in
  order of creation.
\<close>

record campaignMetrics =
  cmCampaignId :: string
  cmSponsorName :: string
  cmImpressions :: nat
  cmClicks :: nat
  cmDwell :: rat

definition orString :: "string option \<Rightarrow> string \<Rightarrow> string" where
  "orString s d = (case s of None \<Rightarrow> d | Some x \<Rightarrow> if x = [] then d else x)"

definition orRat :: "rat option \<Rightarrow> rat \<Rightarrow> rat" where
  "orRat s d = (case s of None \<Rightarrow> d | Some x \<Rightarrow> if x = 0 then d else x)"

definition campaignStep ::
  "event \<Rightarrow> (string \<times> campaignMetrics) list \<Rightarrow> (string \<times> campaignMetrics) list" where
  "campaignStep e m =
     (let i = orString (pCampaignId e) ''N/A'';
          m0 = (case map_of m i of
                  Some b \<Rightarrow> m
                | None \<Rightarrow> m @ [(i, \<lparr>cmCampaignId = i,
                                     cmSponsorName = orString (pSponsorName e) ''N/A'',
                                     cmImpressions = 0, cmClicks = 0, cmDwell = 0\<rparr>)]);
          m1 = (if etype e = ''billboard_impression''
                then AList.map_entry i (\<lambda>b. b\<lparr>cmImpressions := cmImpressions b + 1\<rparr>) m0 else m0);
          m2 = (if etype e = ''billboard_click''
                then AList.map_entry i (\<lambda>b. b\<lparr>cmClicks := cmClicks b + 1\<rparr>) m1 else m1)
      in if etype e = ''billboard_dwell''
         then AList.map_entry i (\<lambda>b. b\<lparr>cmDwell := cmDwell b + orRat (seconds e) 0\<rparr>) m2 else m2)"

definition metricsByCampaign :: "event list \<Rightarrow> campaignMetrics list" where
  "metricsByCampaign eventsLog = map snd (fold campaignStep eventsLog [])"

text \<open>The CTR cell of a campaign row (line 1579):
  \<^verbatim>\<open>m.impressions>0 ? ((m.clicks/m.impressions)*100).toFixed(1) : '0.0'\<close>.\<close>

definition campaignCtr :: "campaignMetrics \<Rightarrow> string" where
  "campaignCtr m =
     (if cmImpressions m > 0 then toFixed 1 (jsTimes (jsDiv (cmClicks m) (cmImpressions m)) 100)
      else ''0.0'')"

text \<open>
  \<^verbatim>\<open>UnifiedControlPanel\<close> starts with \<^verbatim>\<open>if (!isAdmin) return null;\<close> (line 1452):
  the campaign table exists for an admin only, and is computed from the whole
  \<^verbatim>\<open>EVENTS_LOG\<close>; the viewer is no input of it.
\<close>

definition UnifiedControlPanel :: "bool \<Rightarrow> event list \<Rightarrow> (campaignMetrics \<times> string) list option" where
  "UnifiedControlPanel admin eventsLog =
     (if \<not> admin then None
      else Some (map (\<lambda>m. (m, campaignCtr m)) (metricsByCampaign eventsLog)))"

section \<open>The migration on mount\<close>

text \<open>
  Object spread \<^verbatim>\<open>{ ...a, ...b }\<close>: the properties of \<open>a\<close> in their order, then each
  property of \<open>b\<close> in turn, which replaces the value of a name already present (in
  place) and is appended otherwise.
\<close>

definition spread :: "('k \<times> 'v) list \<Rightarrow> ('k \<times> 'v) list \<Rightarrow> ('k \<times> 'v) list" where
  "spread a b = fold (\<lambda>(k, v). AList.update k v) b a"

text \<open>\<^verbatim>\<open>const mergedFlags = { ...DEFAULT_MASTER_FLAGS, ...currentFlags };\<close> (line 2539).\<close>

definition mergedFlags :: "flags \<Rightarrow> flags" where
  "mergedFlags currentFlags = spread DEFAULT_MASTER_FLAGS currentFlags"





section \<open>JSON text\<close>




























section \<open>The local key-value store\<close>







section \<open>Concrete inputs\<close>

text \<open>A visitor who is not logged in, in the world view, with the default flags.\<close>

definition guestScene :: scene where
  "guestScene =
     \<lparr>viewState = WORLD, isAdmin = False, currentUser = None,
      masterFlags = DEFAULT_MASTER_FLAGS, brandModeEnabled = False, showBrandPanel = False,
      showMissions = False, showVault = False, showProgressDrawer = False,
      selectedId = None, sceneData = Map.empty\<rparr>"

text \<open>An organization account as \<^verbatim>\<open>registerUser\<close> builds it (lines 329-332).\<close>

definition orgUser :: "string \<Rightarrow> user" where
  "orgUser oid =
     \<lparr>email = ''ops@acme.example'', name = ''Acme Ops'', role = Some ROLES_ORG_ADMIN,
      accountType = Some ACCOUNT_TYPES_ORGANIZATION,
      orgContext = Some \<lparr>orgId = Some oid, orgName = Some ''Acme'',
                           orgIndustry = Some ''Retail'', orgRole = Some ROLES_ORG_ADMIN\<rparr>\<rparr>"

text \<open>A billboard the admin assigned to an organization by its id, and one where only
  the "Org Name" box of the Brand Assignment form was filled in (line 1656), which leaves
  \<^verbatim>\<open>brand.orgId\<close> undefined.\<close>

definition ownedItem :: "string \<Rightarrow> sceneItem" where
  "ownedItem oid =
     \<lparr>sponsorName = Some ''VirtuTech'', campaignId = Some ''X'', ctaUrl = Some ''https://google.com'',
      brand = Some \<lparr>brandOrgId = Some oid, brandOrgName = None, brandEmail = None,
                     priceTag = None\<rparr>\<rparr>"

definition namedOnlyItem :: sceneItem where
  "namedOnlyItem =
     \<lparr>sponsorName = Some ''CyberCola'', campaignId = None, ctaUrl = Some ''https://google.com'',
      brand = Some \<lparr>brandOrgId = None, brandOrgName = Some ''CyberCola Inc'', brandEmail = None,
                     priceTag = None\<rparr>\<rparr>"

definition boards :: sceneData where
  "boards =
     [''BILLBOARD_0'' \<mapsto> ownedItem ''ORG-A'', ''BILLBOARD_1'' \<mapsto> ownedItem ''ORG-B'',
      ''BILLBOARD_2'' \<mapsto> namedOnlyItem]"

definition orgScene :: scene where
  "orgScene =
     guestScene\<lparr>currentUser := Some (orgUser ''ORG-A''), showBrandPanel := True,
                selectedId := Some ''BILLBOARD_0'', sceneData := boards\<rparr>"

text \<open>A billboard event as \<^verbatim>\<open>sponsorDwell\<close> and \<^verbatim>\<open>handleSelect\<close> log it
  (lines 2630, 2771).\<close>

definition billboardEvent :: "string \<Rightarrow> string \<Rightarrow> event" where
  "billboardEvent ty placement =
     mkEntry ty ''2025-01-01T00:00:00.000Z''
       \<lparr>pId = Some placement, pSponsorName = Some ''VirtuTech'', pCampaignId = Some ''X'',
        seconds = None, sessionId = None, missionId = None\<rparr>"

definition mixedLog :: "event list" where
  "mixedLog =
     [billboardEvent ''billboard_impression'' ''BILLBOARD_0'',
      billboardEvent ''billboard_impression'' ''BILLBOARD_1'',
      billboardEvent ''billboard_impression'' ''BILLBOARD_1'',
      billboardEvent ''billboard_click'' ''BILLBOARD_0'']"








section \<open>The ownership filter of the specification\<close>

text \<open>
  Not a function of the source. The specification asks that the events of a placement
  whose \<^verbatim>\<open>brand.orgId\<close> does not match the viewer never enter an aggregate; this is
  that filter, written from the specification's words, to compare the source with.
\<close>

definition spec_ownedEvents :: "sceneData \<Rightarrow> 'a user_scheme option \<Rightarrow> event list \<Rightarrow> event list" where
  "spec_ownedEvents sd viewer evs =
     filter (\<lambda>e. case pId e of
                   None \<Rightarrow> False
                 | Some i \<Rightarrow>
                     (case sd i of
                        None \<Rightarrow> False
                      | Some it \<Rightarrow>
                          (case brand it of
                             None \<Rightarrow> False
                           | Some b \<Rightarrow> brandOrgId b \<noteq> None \<and> brandOrgId b = viewerOrgId viewer))) evs"

chapter \<open>Properties\<close>

section \<open>Evaluation lemmas\<close>

lemma flagOn_defaults:
  "flagOn DEFAULT_MASTER_FLAGS ''enableBrandMode''"
  "flagOn DEFAULT_MASTER_FLAGS ''showCustomerProgressDrawer''"
  "flagOn DEFAULT_MASTER_FLAGS ''missionsForGuest''"
  by (simp_all add: flagOn_def DEFAULT_MASTER_FLAGS_def)

lemma floor_rat_numeral: "\<lfloor>(numeral a :: rat) / numeral b\<rfloor> = numeral a div numeral b"
  using floor_divide_of_int_eq [of "numeral a" "numeral b", where ?'a = rat] by simp

lemma showNat_digit: "n < 10 \<Longrightarrow> showNat n = [digitChar n]"
  by (simp add: showNat.simps)

lemma showNat_step: "10 \<le> n \<Longrightarrow> showNat n = showNat (n div 10) @ [digitChar (n mod 10)]"
  by (subst showNat.simps) simp

lemmas toFixed_eval =
  toFixed_def fixedDigits_def jsDiv_def jsTimes_def Let_def padZeros_def
  showNat_digit showNat_step digitChar_def floor_rat_numeral

lemma toFixed_680: "toFixed 2 (jsTimes (jsDiv 85 1250) 100) = ''6.80''"
  by (simp add: toFixed_eval)

lemma toFixed_3333: "toFixed 2 (jsTimes (jsDiv (Suc 0) (Suc (Suc (Suc 0)))) 100) = ''33.33''"
  by (simp add: toFixed_eval)

lemma toFixed_10000: "toFixed 2 (jsTimes (jsDiv (Suc 0) (Suc 0)) 100) = ''100.00''"
  by (simp add: toFixed_eval)




section \<open>Who sees the metrics of a placement\<close>

text \<open>What the expression of line 1929 decides, case by case.\<close>

lemma canSeeMetrics_admin: "canSeeMetrics True item viewer"
  by (simp add: canSeeMetrics_def)

lemma canSeeMetrics_org_iff:
  "viewerOrgId viewer = Some oid \<Longrightarrow>
   canSeeMetrics False item viewer \<longleftrightarrow>
     (\<exists>it b. item = Some it \<and> brand it = Some b \<and> brandOrgId b = Some oid)"
  by (auto simp: canSeeMetrics_def split: option.splits)

lemma canSeeMetrics_no_org_iff:
  "viewerOrgId viewer = None \<Longrightarrow>
   canSeeMetrics False item viewer \<longleftrightarrow>
     (\<exists>it b. item = Some it \<and> brand it = Some b \<and> brandOrgId b = None)"
  by (auto simp: canSeeMetrics_def split: option.splits)

text \<open>
  Claim C1. The decision is true for an admin, for an organization viewer exactly when
  the ids match, and false for every viewer without an organization context, who then
  sees the confidential placeholder. The source departs from this at two inputs.
  A visitor who is not logged in has the panel open on a billboard whose brand has a
  name and no \<^verbatim>\<open>orgId\<close>: both sides of the comparison are \<^verbatim>\<open>undefined\<close>, the
  decision is true and the rendered panel shows the tiles. And \<^verbatim>\<open>SceneContent\<close>
  renders the panel without a \<^verbatim>\<open>currentUser\<close> attribute, so for an organization
  viewer on a billboard of its own the decision of the component, given the viewer, is
  true, but the one the rendered panel takes is false and it shows the placeholder.
\<close>

theorem canSeeMetrics_undefined_orgId:
  "canSeeMetrics False (Some namedOnlyItem) (None :: user option)
   \<and> renderedBrandPanel
         (guestScene\<lparr>showBrandPanel := True, selectedId := Some ''BILLBOARD_2'',
                     sceneData := boards\<rparr>) []
      = Some (Tiles \<lparr>impressions = 1250, clicks = 85, ctr = ''6.80'', dwell = ''4.2s''\<rparr>)
   \<and> canSeeMetrics False (selectedItem (selectedId orgScene) (sceneData orgScene))
        (currentUser orgScene)
   \<and> \<not> panelCanSeeMetrics orgScene
   \<and> renderedBrandPanel orgScene mixedLog = Some Confidential"
  by (simp add: canSeeMetrics_def namedOnlyItem_def viewerOrgId_def BrandPreviewPanel_def
      renderedBrandPanel_def brandPanelRendered_def flagOn_defaults
      selectedItem_def metrics_def countType_def orCount_def toFixed_680 orgScene_def
      guestScene_def boards_def ownedItem_def orgUser_def panelCanSeeMetrics_def)

section \<open>What enters the aggregates\<close>

text \<open>
  Claim C2. For a non-admin organization viewer the aggregates shown are those of the
  events of its own placements only. In the source the only aggregates such a viewer is
  shown are the tiles of the brand panel, and they count every event of the analytics
  log: with one impression and one click on the viewer's billboard and two impressions on
  another organization's, the tiles read 3 impressions and a CTR of 33.33, where the
  events of its own placements give 1 impression and 100.00. This is so for the
  component given the viewer, and for the panel as \<^verbatim>\<open>SceneContent\<close> renders it,
  where the organization viewer gets the tiles on a billboard whose brand has no
  \<^verbatim>\<open>orgId\<close>. The campaign table of \<^verbatim>\<open>UnifiedControlPanel\<close> is not rendered for
  this viewer at all.
\<close>

theorem metrics_count_foreign_events:
  "BrandPreviewPanel False (Some ''BILLBOARD_0'') boards (Some (orgUser ''ORG-A'')) mixedLog
     = Tiles \<lparr>impressions = 3, clicks = 1, ctr = ''33.33'', dwell = ''4.2s''\<rparr>
   \<and> spec_ownedEvents boards (Some (orgUser ''ORG-A'')) mixedLog
     = [billboardEvent ''billboard_impression'' ''BILLBOARD_0'',
        billboardEvent ''billboard_click'' ''BILLBOARD_0'']
   \<and> BrandPreviewPanel False (Some ''BILLBOARD_0'') boards (Some (orgUser ''ORG-A''))
        (spec_ownedEvents boards (Some (orgUser ''ORG-A'')) mixedLog)
     = Tiles \<lparr>impressions = 1, clicks = 1, ctr = ''100.00'', dwell = ''4.2s''\<rparr>
   \<and> renderedBrandPanel (orgScene\<lparr>selectedId := Some ''BILLBOARD_2''\<rparr>) mixedLog
     = Some (Tiles \<lparr>impressions = 3, clicks = 1, ctr = ''33.33'', dwell = ''4.2s''\<rparr>)
   \<and> UnifiedControlPanel False mixedLog = None"
  by (simp add: canSeeMetrics_def viewerOrgId_def BrandPreviewPanel_def
      renderedBrandPanel_def brandPanelRendered_def flagOn_defaults orgScene_def guestScene_def
      namedOnlyItem_def
      selectedItem_def metrics_def countType_def orCount_def toFixed_3333 toFixed_10000
      boards_def ownedItem_def orgUser_def mixedLog_def billboardEvent_def mkEntry_def
      spec_ownedEvents_def UnifiedControlPanel_def)

section \<open>Click-through rate\<close>






section \<open>Brand mode, missions and the progress drawer\<close>

text \<open>No flag is an input of the Missions and Vault buttons, and the account type is no
  input of the brand panel or of the progress drawer.\<close>

lemma missionsButton_ignores_flags:
  "missionsButton (s\<lparr>masterFlags := fl\<rparr>) = missionsButton s
   \<and> vaultButton (s\<lparr>masterFlags := fl\<rparr>) = vaultButton s"
  by (simp add: missionsButton_def vaultButton_def worldToolbar_def)

lemma brandPanelRendered_ignores_viewer:
  "brandPanelRendered (s\<lparr>isAdmin := a, currentUser := u\<rparr>) = brandPanelRendered s"
  by (simp add: brandPanelRendered_def)

lemma progressDrawerRendered_ignores_user:
  "progressDrawerRendered (s\<lparr>currentUser := u\<rparr>) = progressDrawerRendered s"
  by (simp add: progressDrawerRendered_def)

text \<open>
  Claim C4. The brand-mode toggle and the brand panel are shown to an admin or an
  organization account only. The toggle of the landing page is; but in the world view a
  visitor who is not logged in is shown the "Brand Mode" button, which is gated by the
  flag \<^verbatim>\<open>enableBrandMode\<close> alone, and one click on it renders the brand panel.
\<close>

theorem brand_panel_open_to_guest:
  "\<not> canSeeBrandMode (isAdmin guestScene) (currentUser guestScene)
   \<and> \<not> landingBrandToggle guestScene
   \<and> worldBrandModeButton guestScene
   \<and> brandPanelRendered (clickWorldBrandModeButton guestScene)"
  by (simp add: guestScene_def landingBrandToggle_def worldBrandModeButton_def
      brandPanelRendered_def clickWorldBrandModeButton_def worldToolbar_def
      canSeeBrandMode_def flagOn_defaults)

text \<open>
  Claim C5. For a guest the missions and vault UI is hidden when \<^verbatim>\<open>missionsForGuest\<close>
  is false. With the flag switched off in Master Control, the visitor who is not logged
  in still has both buttons in the world view, and each opens its modal.
\<close>

theorem missions_shown_with_flag_off:
  "\<not> flagOn (masterFlags (toggleMasterFlag ''missionsForGuest'' guestScene)) ''missionsForGuest''
   \<and> missionsButton (toggleMasterFlag ''missionsForGuest'' guestScene)
   \<and> vaultButton (toggleMasterFlag ''missionsForGuest'' guestScene)
   \<and> missionsModalRendered (clickMissionsButton (toggleMasterFlag ''missionsForGuest'' guestScene))
   \<and> vaultModalRendered (clickVaultButton (toggleMasterFlag ''missionsForGuest'' guestScene))"
  by (simp add: guestScene_def toggleMasterFlag_def onToggle_def flagOn_def
      DEFAULT_MASTER_FLAGS_def missionsButton_def vaultButton_def worldToolbar_def
      missionsModalRendered_def vaultModalRendered_def clickMissionsButton_def
      clickVaultButton_def)

text \<open>
  Claim C6. The progress drawer is for individual accounts only, under a global flag.
  With the flag on, the drawer and its opener are rendered for the visitor who is not
  logged in and for an organization account alike.
\<close>

theorem progress_drawer_shown_to_guest_and_org:
  "currentUser guestScene = None
   \<and> progressDrawerRendered guestScene \<and> progressDrawerOpener guestScene
   \<and> map_option accountType (currentUser orgScene) = Some (Some ACCOUNT_TYPES_ORGANIZATION)
   \<and> progressDrawerRendered orgScene \<and> progressDrawerOpener orgScene"
  by (simp add: guestScene_def orgScene_def orgUser_def progressDrawerRendered_def
      progressDrawerOpener_def worldToolbar_def flagOn_defaults)

section \<open>The cap of the analytics log\<close>








section \<open>The flag merge\<close>

lemma update_fresh: "k \<notin> fst ` set al \<Longrightarrow> AList.update k v al = al @ [(k, v)]"
  by (induction al) auto

lemma spread_Cons_other:
  "fst p \<notin> fst ` set xs \<Longrightarrow> spread (p # ys) xs = p # spread ys xs"
proof (induction xs arbitrary: ys)
  case Nil
  then show ?case by (simp add: spread_def)
next
  case (Cons x xs)
  obtain k v where x: "x = (k, v)" by (cases x)
  from Cons.prems x have ne: "fst p \<noteq> k" and rest: "fst p \<notin> fst ` set xs" by auto
  have "spread (p # ys) (x # xs) = spread (AList.update k v (p # ys)) xs"
    by (simp add: spread_def x)
  also have "AList.update k v (p # ys) = p # AList.update k v ys"
    using ne by (cases p) auto
  also have "spread (p # AList.update k v ys) xs = p # spread (AList.update k v ys) xs"
    using Cons.IH [OF rest] .
  also have "spread (AList.update k v ys) xs = spread ys (x # xs)"
    by (simp add: spread_def x)
  finally show ?case .
qed

text \<open>Spreading an object over another with the same names in the same order gives the
  object itself.\<close>

lemma spread_same_keys:
  "map fst m = map fst d \<Longrightarrow> distinct (map fst d) \<Longrightarrow> spread d m = m"
proof (induction m arbitrary: d)
  case Nil
  then show ?case by (simp add: spread_def)
next
  case (Cons x m)
  obtain k v where x: "x = (k, v)" by (cases x)
  from Cons.prems obtain w d' where d: "d = (k, w) # d'" and keys: "map fst m = map fst d'"
    by (cases d) (auto simp: x)
  from Cons.prems d have dist: "distinct (map fst d')" and fresh: "k \<notin> fst ` set d'" by auto
  from keys fresh have fresh_m: "fst (k, v) \<notin> fst ` set m"
    by (metis fst_conv list.set_map)
  have "spread d (x # m) = spread ((k, v) # d') m"
    by (simp add: spread_def x d)
  also have "\<dots> = (k, v) # spread d' m"
    using spread_Cons_other [OF fresh_m] .
  also have "spread d' m = m"
    using Cons.IH [OF keys dist] .
  finally show ?case by (simp add: x)
qed

text \<open>Spreading properties with new, distinct names appends them.\<close>

lemma spread_fresh:
  "distinct (map fst xs) \<Longrightarrow> fst ` set xs \<inter> fst ` set m = {} \<Longrightarrow> spread m xs = m @ xs"
proof (induction xs arbitrary: m)
  case Nil
  then show ?case by (simp add: spread_def)
next
  case (Cons x xs)
  obtain k v where x: "x = (k, v)" by (cases x)
  from Cons.prems x have k_m: "k \<notin> fst ` set m" and k_xs: "k \<notin> fst ` set xs"
    and dist: "distinct (map fst xs)" and disj: "fst ` set xs \<inter> fst ` set m = {}"
    by auto
  have "spread m (x # xs) = spread (m @ [(k, v)]) xs"
    by (simp add: spread_def x update_fresh [OF k_m])
  also have "\<dots> = (m @ [(k, v)]) @ xs"
    using dist disj k_xs by (intro Cons.IH) auto
  finally show ?case by (simp add: x)
qed

lemma spread_append: "spread d (a @ b) = spread (spread d a) b"
  by (simp add: spread_def)

text \<open>The names of a spread are distinct and start with the names of its first
  operand.\<close>

lemma update_keys_shape:
  "distinct (map fst m) \<Longrightarrow> map fst m = ks @ xs \<Longrightarrow>
   distinct (map fst (AList.update k v m)) \<and> (\<exists>ys. map fst (AList.update k v m) = ks @ ys)"
  by (auto simp: AList.update_keys distinct_update)

lemma spread_keys_shape:
  "distinct (map fst m) \<Longrightarrow> map fst m = ks @ xs \<Longrightarrow>
   distinct (map fst (spread m s)) \<and> (\<exists>ys. map fst (spread m s) = ks @ ys)"
proof (induction s arbitrary: m xs)
  case Nil
  then show ?case by (auto simp: spread_def)
next
  case (Cons x s)
  obtain k v where x: "x = (k, v)" by (cases x)
  from update_keys_shape [OF Cons.prems, of k v]
  obtain ys where d: "distinct (map fst (AList.update k v m))"
    and ys: "map fst (AList.update k v m) = ks @ ys" by blast
  have "spread m (x # s) = spread (AList.update k v m) s"
    by (simp add: spread_def x)
  with Cons.IH [OF d ys] show ?case by simp
qed

lemma spread_fixed:
  assumes "distinct (map fst m)" and "map fst m = map fst d @ xs"
  shows "spread d m = m"
proof -
  let ?n = "length d"
  have k1: "map fst (take ?n m) = map fst d"
    using assms(2) by (metis append_eq_conv_conj length_map take_map)
  have k2: "map fst (drop ?n m) = xs"
    using assms(2) by (metis append_eq_conv_conj length_map drop_map)
  have dd: "distinct (map fst d)" using assms by auto
  have dx: "distinct xs" and disj: "set (map fst d) \<inter> set xs = {}" using assms by auto
  have "spread d m = spread (spread d (take ?n m)) (drop ?n m)"
    using spread_append [of d "take ?n m" "drop ?n m"] by simp
  also have "spread d (take ?n m) = take ?n m"
    using spread_same_keys [OF k1 dd] .
  also have "spread (take ?n m) (drop ?n m) = take ?n m @ drop ?n m"
  proof (rule spread_fresh)
    show "distinct (map fst (drop ?n m))" using k2 dx by simp
    have "fst ` set (drop ?n m) = set xs" using k2 by (metis list.set_map)
    moreover have "fst ` set (take ?n m) = set (map fst d)" using k1 by (metis list.set_map)
    ultimately show "fst ` set (drop ?n m) \<inter> fst ` set (take ?n m) = {}" using disj by auto
  qed
  finally show ?thesis by simp
qed

lemma distinct_DEFAULT_MASTER_FLAGS: "distinct (map fst DEFAULT_MASTER_FLAGS)"
  by (simp add: DEFAULT_MASTER_FLAGS_def)

lemma map_of_spread: "map_of (spread d s) = map_of d ++ map_of (rev s)"
proof (induction s arbitrary: d)
  case Nil
  show ?case by (simp add: spread_def)
next
  case (Cons x s)
  obtain k v where x: "x = (k, v)" by (cases x)
  have "map_of (spread d (x # s)) = map_of (spread (AList.update k v d) s)"
    by (simp add: spread_def x)
  also have "\<dots> = map_of (AList.update k v d) ++ map_of (rev s)"
    by (rule Cons.IH)
  also have "\<dots> = map_of d ++ map_of (rev (x # s))"
    by (simp add: x update_conv' map_add_upd_left)
  finally show ?case .
qed

lemma map_of_rev_distinct: "distinct (map fst s) \<Longrightarrow> map_of (rev s) = map_of s"
proof (induction s)
  case Nil
  show ?case by simp
next
  case (Cons x s)
  obtain k v where x: "x = (k, v)" by (cases x)
  from Cons.prems x have fresh: "map_of s k = None"
    by (simp add: map_of_eq_None_iff)
  have "map_of (rev (x # s)) = map_of [x] ++ map_of s"
    using Cons by simp
  also have "\<dots> = map_of (x # s)"
    using fresh by (auto simp: x map_add_def fun_eq_iff split: option.splits)
  finally show ?case .
qed

lemma spread_lookup:
  "distinct (map fst s) \<Longrightarrow>
   map_of (spread d s) k = (case map_of s k of Some v \<Rightarrow> Some v | None \<Rightarrow> map_of d k)"
  by (simp add: map_of_spread map_add_def map_of_rev_distinct split: option.splits)

text \<open>
  Claim C8. The merge \<^verbatim>\<open>{ ...defaults, ...stored }\<close> is idempotent in its second
  argument: merging the defaults into a merged object gives that object, property for
  property and in the same order. And it is the union in which the stored value wins:
  the value of a name is the stored one when the stored object has the name, the
  default otherwise. The names of the defaults are distinct, as the properties of an
  object are.
\<close>

theorem spread_idempotent:
  "distinct (map fst defaults) \<Longrightarrow>
     spread defaults (spread defaults stored) = spread defaults stored
   \<and> (distinct (map fst stored) \<longrightarrow>
        (\<forall>k. map_of (spread defaults stored) k =
               (case map_of stored k of Some v \<Rightarrow> Some v | None \<Rightarrow> map_of defaults k)))"
proof -
  assume d: "distinct (map fst defaults)"
  from spread_keys_shape [OF d, of "map fst defaults" "[]" stored]
  obtain ys where "distinct (map fst (spread defaults stored))"
    and "map fst (spread defaults stored) = map fst defaults @ ys"
    by auto
  then have "spread defaults (spread defaults stored) = spread defaults stored"
    by (rule spread_fixed)
  then show ?thesis by (simp add: spread_lookup)
qed

theorem spread_idempotent_witness:
  "mergedFlags (mergedFlags [(''showChat'', False), (''legacyFlag'', True)])
     = mergedFlags [(''showChat'', False), (''legacyFlag'', True)]
   \<and> map_of (mergedFlags [(''showChat'', False), (''legacyFlag'', True)]) ''showChat'' = Some False
   \<and> map_of (mergedFlags [(''showChat'', False), (''legacyFlag'', True)]) ''legacyFlag'' = Some True
   \<and> map_of (mergedFlags [(''showChat'', False), (''legacyFlag'', True)]) ''missionsForGuest'' = Some True"
proof -
  have "mergedFlags (mergedFlags [(''showChat'', False), (''legacyFlag'', True)])
     = mergedFlags [(''showChat'', False), (''legacyFlag'', True)]"
    unfolding mergedFlags_def
    using spread_idempotent [OF distinct_DEFAULT_MASTER_FLAGS] by blast
  moreover have "map_of (mergedFlags [(''showChat'', False), (''legacyFlag'', True)]) ''showChat'' = Some False"
    "map_of (mergedFlags [(''showChat'', False), (''legacyFlag'', True)]) ''legacyFlag'' = Some True"
    "map_of (mergedFlags [(''showChat'', False), (''legacyFlag'', True)]) ''missionsForGuest'' = Some True"
    by (simp_all add: mergedFlags_def spread_def DEFAULT_MASTER_FLAGS_def)
  ultimately show ?thesis by simp
qed

section \<open>The role migration\<close>






section \<open>JSON text read back\<close>

subsection \<open>Numbers\<close>















subsection \<open>Strings\<close>





subsection \<open>Values\<close>

















subsection \<open>Arrays\<close>





subsection \<open>Objects\<close>













section \<open>Load after save\<close>








end
